theory Spec2Isabelle
  imports Main "HOL-Library.AList"
begin

section \<open>JavaScript values\<close>

text \<open>
  The services in \<^verbatim>\<open>services/geminiService\<close> exchange JavaScript strings with the
  generative-content service and turn the reply into a value with \<^verbatim>\<open>JSON.parse\<close>.
  A JavaScript string is a sequence of UTF-16 code units; a code unit is modelled as a
  natural number. String constants of the source are ASCII and are written as HOL strings
  (\<open>ascii\<close> turns one into code units).
\<close>

type_synonym jsstring = "nat list"

definition ascii :: "string \<Rightarrow> jsstring" where
  "ascii s = map of_char s"

text \<open>
  The values \<^verbatim>\<open>JSON.parse\<close> can return. A number is kept as the decimal its literal
  denotes: \<open>JNumber m e\<close> is \<open>m * 10 ^ e\<close>. The conversion to a binary64 float is not part
  of the model (except for the test against zero, \<open>rounds_to_zero\<close> below). An object is
  the list of its members in insertion order, each key once.
\<close>

datatype json =
    JNull
  | JBool bool
  | JNumber int int
  | JString jsstring
  | JArray "json list"
  | JObject "(jsstring \<times> json) list"

section \<open>JSON.parse\<close>

text \<open>
  \<^verbatim>\<open>JSON.parse\<close> is a built-in of the platform. It is modelled after the JSON grammar of
  ECMA-404 as the standard defines it for \<^verbatim>\<open>JSON.parse\<close>: the text is cut into tokens, and a
  pushdown automaton reads the tokens. \<open>None\<close> stands for the \<^verbatim>\<open>SyntaxError\<close> that
  \<^verbatim>\<open>JSON.parse\<close> throws.
\<close>

datatype token =
    TLBrace | TRBrace | TLBracket | TRBracket | TColon | TComma
  | TString jsstring | TNumber int int | TTrue | TFalse | TNull

definition is_ws :: "nat \<Rightarrow> bool" where
  "is_ws c = (c = 0x20 \<or> c = 0x09 \<or> c = 0x0A \<or> c = 0x0D)"

definition is_digit :: "nat \<Rightarrow> bool" where
  "is_digit c = (0x30 \<le> c \<and> c \<le> 0x39)"

definition hex_value :: "nat \<Rightarrow> nat option" where
  "hex_value c =
     (if 0x30 \<le> c \<and> c \<le> 0x39 then Some (c - 0x30)
      else if 0x41 \<le> c \<and> c \<le> 0x46 then Some (c - 0x41 + 10)
      else if 0x61 \<le> c \<and> c \<le> 0x66 then Some (c - 0x61 + 10)
      else None)"

fun hex4 :: "jsstring \<Rightarrow> nat option" where
  "hex4 [a, b, c, d] =
     (case (hex_value a, hex_value b, hex_value c, hex_value d) of
        (Some x, Some y, Some z, Some w) \<Rightarrow> Some (4096 * x + 256 * y + 16 * z + w)
      | _ \<Rightarrow> None)"
| "hex4 _ = None"

definition unescape :: "nat \<Rightarrow> nat option" where
  "unescape e =
     (if e = 0x22 then Some 0x22
      else if e = 0x5C then Some 0x5C
      else if e = 0x2F then Some 0x2F
      else if e = 0x62 then Some 0x08
      else if e = 0x66 then Some 0x0C
      else if e = 0x6E then Some 0x0A
      else if e = 0x72 then Some 0x0D
      else if e = 0x74 then Some 0x09
      else None)"

text \<open>
  The rest of a string literal after its opening quote: the decoded code units and the
  text after the closing quote. Control characters must be escaped.
\<close>

function lex_string :: "jsstring \<Rightarrow> jsstring \<Rightarrow> (jsstring \<times> jsstring) option" where
  "lex_string acc [] = None"
| "lex_string acc (c # cs) =
     (if c = 0x22 then Some (rev acc, cs)
      else if c = 0x5C then
        (case cs of
           [] \<Rightarrow> None
         | e # cs' \<Rightarrow>
             if e = 0x75 then
               (case hex4 (take 4 cs') of
                  None \<Rightarrow> None
                | Some u \<Rightarrow> lex_string (u # acc) (drop 4 cs'))
             else
               (case unescape e of
                  None \<Rightarrow> None
                | Some x \<Rightarrow> lex_string (x # acc) cs'))
      else if c < 0x20 then None
      else lex_string (c # acc) cs)"
  by pat_completeness auto
termination
  by (relation "measure (\<lambda>(acc, cs). length cs)") auto

definition digits_value :: "jsstring \<Rightarrow> nat" where
  "digits_value ds = foldl (\<lambda>n c. 10 * n + (c - 0x30)) 0 ds"

text \<open>
  A number literal: an optional minus sign, an integer part without leading zeros, an
  optional fraction and an optional exponent.
\<close>

definition lex_number :: "jsstring \<Rightarrow> (token \<times> jsstring) option" where
  "lex_number cs =
     (let neg = (take 1 cs = [0x2D]);
          cs1 = (if neg then drop 1 cs else cs);
          ip = takeWhile is_digit cs1;
          cs2 = dropWhile is_digit cs1;
          has_frac = (take 1 cs2 = [0x2E]);
          fp = (if has_frac then takeWhile is_digit (drop 1 cs2) else []);
          cs3 = (if has_frac then dropWhile is_digit (drop 1 cs2) else cs2);
          has_exp = (take 1 cs3 = [0x65] \<or> take 1 cs3 = [0x45]);
          cs4 = drop 1 cs3;
          eneg = (take 1 cs4 = [0x2D]);
          cs5 = (if take 1 cs4 = [0x2D] \<or> take 1 cs4 = [0x2B] then drop 1 cs4 else cs4);
          ep = takeWhile is_digit cs5;
          cs6 = dropWhile is_digit cs5;
          m = int (digits_value (ip @ fp));
          e = int (digits_value ep)
      in if ip = [] \<or> (1 < length ip \<and> take 1 ip = [0x30]) then None
         else if has_frac \<and> fp = [] then None
         else if has_exp \<and> ep = [] then None
         else Some (TNumber (if neg then - m else m)
                      ((if has_exp then (if eneg then - e else e) else 0) - int (length fp)),
                    if has_exp then cs6 else cs3))"

lemma lex_string_shorter:
  "lex_string acc cs = Some (s, rest) \<Longrightarrow> length rest < length cs"
proof (induction acc cs rule: lex_string.induct)
  case (1 acc)
  then show ?case by simp
next
  case (2 acc c cs)
  then show ?case
    by (auto split: if_splits list.splits option.splits) fastforce+
qed

lemma dropWhile_shorter:
  "takeWhile P xs \<noteq> [] \<Longrightarrow> length (dropWhile P xs) < length xs"
  by (induction xs) (auto simp: le_imp_less_Suc length_dropWhile_le split: if_splits)

lemma if3_Some:
  assumes "(if a then None else if b then None else if c then None else Some (x, y)) = Some (t, r)"
  shows "\<not> a" and "r = y"
  using assms by (auto split: if_splits)

lemma lex_number_shorter:
  assumes "lex_number cs = Some (t, rest)"
  shows "length rest < length cs"
proof -
  define cs1 where "cs1 = (if take 1 cs = [0x2D] then drop 1 cs else cs)"
  define cs2 where "cs2 = dropWhile is_digit cs1"
  define cs3 where "cs3 = (if take 1 cs2 = [0x2E] then dropWhile is_digit (drop 1 cs2) else cs2)"
  define cs5 where "cs5 = (if take 1 (drop 1 cs3) = [0x2D] \<or> take 1 (drop 1 cs3) = [0x2B]
                           then drop 1 (drop 1 cs3) else drop 1 cs3)"
  define cs6 where "cs6 = dropWhile is_digit cs5"
  note h = if3_Some [OF assms [unfolded lex_number_def Let_def]]
  from h(1) have ne: "takeWhile is_digit cs1 \<noteq> []"
    unfolding cs1_def by blast
  from h(2) have r: "rest = cs6 \<or> rest = cs3"
    unfolding cs1_def cs2_def cs3_def cs5_def cs6_def by presburger
  have l1: "length cs1 \<le> length cs" by (simp add: cs1_def)
  have l2: "length cs2 < length cs1" unfolding cs2_def by (rule dropWhile_shorter [OF ne])
  have "length (dropWhile is_digit (drop 1 cs2)) \<le> length (drop 1 cs2)"
    by (rule length_dropWhile_le)
  then have l3: "length cs3 \<le> length cs2" by (auto simp: cs3_def)
  have l5: "length cs5 \<le> length cs3" by (simp add: cs5_def)
  have l6: "length cs6 \<le> length cs5" unfolding cs6_def by (rule length_dropWhile_le)
  from r l1 l2 l3 l5 l6 show ?thesis by auto
qed

definition literal :: "string \<Rightarrow> jsstring \<Rightarrow> bool" where
  "literal w cs = (take (length w) cs = ascii w)"

function tokens :: "jsstring \<Rightarrow> token list option" where
  "tokens [] = Some []"
| "tokens (c # cs) =
     (if is_ws c then tokens cs
      else if c = 0x7B then map_option ((#) TLBrace) (tokens cs)
      else if c = 0x7D then map_option ((#) TRBrace) (tokens cs)
      else if c = 0x5B then map_option ((#) TLBracket) (tokens cs)
      else if c = 0x5D then map_option ((#) TRBracket) (tokens cs)
      else if c = 0x3A then map_option ((#) TColon) (tokens cs)
      else if c = 0x2C then map_option ((#) TComma) (tokens cs)
      else if c = 0x22 then
        (case lex_string [] cs of
           None \<Rightarrow> None
         | Some (s, rest) \<Rightarrow> map_option ((#) (TString s)) (tokens rest))
      else if c = 0x2D \<or> is_digit c then
        (case lex_number (c # cs) of
           None \<Rightarrow> None
         | Some (t, rest) \<Rightarrow> map_option ((#) t) (tokens rest))
      else if literal ''true'' (c # cs) then map_option ((#) TTrue) (tokens (drop 3 cs))
      else if literal ''false'' (c # cs) then map_option ((#) TFalse) (tokens (drop 4 cs))
      else if literal ''null'' (c # cs) then map_option ((#) TNull) (tokens (drop 3 cs))
      else None)"
  by pat_completeness auto
termination
proof (relation "measure length", goal_cases)
  case (9 c cs x2 s rest)
  then show ?case using lex_string_shorter [of "[]" cs s rest] by simp
next
  case (10 c cs x2 t rest)
  then show ?case using lex_number_shorter [of "c # cs" t rest] by simp
qed auto

text \<open>
  The automaton keeps a stack of the arrays and objects that are still open. A frame is an
  array with its elements so far, an object with its members so far, or an object that has
  read a key and waits for the value. A repeated key overwrites the earlier member in
  place, as property assignment does.
\<close>

datatype frame =
    FArr "json list"
  | FObj "(jsstring \<times> json) list"
  | FKey "(jsstring \<times> json) list" jsstring

datatype mode = WantValue | FirstElem | FirstKey | WantKey | WantColon | AfterValue | Done json

fun reduce :: "json \<Rightarrow> frame list \<Rightarrow> (frame list \<times> mode) option" where
  "reduce v [] = Some ([], Done v)"
| "reduce v (FArr es # st) = Some (FArr (es @ [v]) # st, AfterValue)"
| "reduce v (FKey ms k # st) = Some (FObj (AList.update k v ms) # st, AfterValue)"
| "reduce v (FObj ms # st) = None"

fun begin_value :: "frame list \<Rightarrow> token \<Rightarrow> (frame list \<times> mode) option" where
  "begin_value st TLBracket = Some (FArr [] # st, FirstElem)"
| "begin_value st TLBrace = Some (FObj [] # st, FirstKey)"
| "begin_value st (TString s) = reduce (JString s) st"
| "begin_value st (TNumber m e) = reduce (JNumber m e) st"
| "begin_value st TTrue = reduce (JBool True) st"
| "begin_value st TFalse = reduce (JBool False) st"
| "begin_value st TNull = reduce JNull st"
| "begin_value st _ = None"

definition shift :: "frame list \<Rightarrow> mode \<Rightarrow> token \<Rightarrow> (frame list \<times> mode) option" where
  "shift st m t =
     (case m of
        WantValue \<Rightarrow> begin_value st t
      | FirstElem \<Rightarrow>
          (case st of
             FArr es # st' \<Rightarrow> if t = TRBracket then reduce (JArray es) st' else begin_value st t
           | _ \<Rightarrow> None)
      | FirstKey \<Rightarrow>
          (case (st, t) of
             (FObj ms # st', TRBrace) \<Rightarrow> reduce (JObject ms) st'
           | (FObj ms # st', TString k) \<Rightarrow> Some (FKey ms k # st', WantColon)
           | _ \<Rightarrow> None)
      | WantKey \<Rightarrow>
          (case (st, t) of
             (FObj ms # st', TString k) \<Rightarrow> Some (FKey ms k # st', WantColon)
           | _ \<Rightarrow> None)
      | WantColon \<Rightarrow> (if t = TColon then Some (st, WantValue) else None)
      | AfterValue \<Rightarrow>
          (case (st, t) of
             (FArr es # st', TComma) \<Rightarrow> Some (st, WantValue)
           | (FArr es # st', TRBracket) \<Rightarrow> reduce (JArray es) st'
           | (FObj ms # st', TComma) \<Rightarrow> Some (st, WantKey)
           | (FObj ms # st', TRBrace) \<Rightarrow> reduce (JObject ms) st'
           | _ \<Rightarrow> None)
      | Done v \<Rightarrow> None)"

fun run :: "frame list \<Rightarrow> mode \<Rightarrow> token list \<Rightarrow> json option" where
  "run st m [] = (case m of Done v \<Rightarrow> Some v | _ \<Rightarrow> None)"
| "run st m (t # ts) = (case shift st m t of None \<Rightarrow> None | Some (st', m') \<Rightarrow> run st' m' ts)"

definition JSON_parse :: "jsstring \<Rightarrow> json option" where
  "JSON_parse text = (case tokens text of None \<Rightarrow> None | Some ts \<Rightarrow> run [] WantValue ts)"



text \<open>Property access \<^verbatim>\<open>v.k\<close> on a parsed object: the member with that key, if any.\<close>

definition field :: "string \<Rightarrow> json \<Rightarrow> json option" where
  "field k v = (case v of JObject ms \<Rightarrow> map_of ms (ascii k) | _ \<Rightarrow> None)"

text \<open>
  Truthiness, as \<^verbatim>\<open>if (data)\<close> and \<^verbatim>\<open>!data\<close> test it. A number is falsy when it is zero;
  a literal of magnitude at most \<open>2 ^ -1075\<close> is read as the float zero.
\<close>

definition rounds_to_zero :: "int \<Rightarrow> int \<Rightarrow> bool" where
  "rounds_to_zero m e = (if 0 \<le> e then m = 0 else \<bar>m\<bar> * 2 ^ 1075 \<le> 10 ^ nat (- e))"

fun truthy :: "json \<Rightarrow> bool" where
  "truthy JNull = False"
| "truthy (JBool b) = b"
| "truthy (JNumber m e) = (\<not> rounds_to_zero m e)"
| "truthy (JString s) = (s \<noteq> [])"
| "truthy (JArray es) = True"
| "truthy (JObject ms) = True"

text \<open>\<^verbatim>\<open>!text\<close> on \<^verbatim>\<open>response.text\<close>: true for \<^verbatim>\<open>undefined\<close> and for the empty string.\<close>

definition no_text :: "jsstring option \<Rightarrow> bool" where
  "no_text t = (case t of None \<Rightarrow> True | Some cs \<Rightarrow> cs = [])"

section \<open>The generative-content service\<close>

text \<open>
  Errors are values. \<open>Error m\<close> is \<^verbatim>\<open>new Error(m)\<close>; \<open>SyntaxError\<close> is what
  \<^verbatim>\<open>JSON.parse\<close> throws and \<open>TypeError\<close> what a property read on \<^verbatim>\<open>undefined\<close> or
  \<^verbatim>\<open>null\<close> throws (their messages depend on the engine and are left out).
\<close>

datatype js_error = Error string | SyntaxError | TypeError

text \<open>
  The instruction and prompt constants of the source are long English texts. Their wording
  decides no branch of the code, so each is represented by its name; the weather prompt
  carries the location it interpolates.
\<close>

datatype instruction =
    SYSTEM_INSTRUCTION
  | GARDENING_MASTER_INSTRUCTION
  | SOIL_ANALYSER_INSTRUCTION
  | SEED_ANALYSER_INSTRUCTION
  | NUTRIENT_ANALYSER_INSTRUCTION
  | SOIL_EXPERT_CHAT_INSTRUCTION

datatype prompt =
    DiseasePrompt
  | SoilPrompt
  | SeedPrompt
  | NutrientPrompt
  | WeatherPrompt jsstring

datatype part = InlineData (mimeType: string) (image_data: jsstring) | TextPart prompt

datatype role = User | Model

datatype contents =
    Parts "part list"
  | Prompt prompt
  | Turns "(role \<times> jsstring) list"

datatype tool = googleSearch

record request =
  model :: string
  contents :: contents
  systemInstruction :: "instruction option"
  responseMimeType :: "string option"
  tools :: "tool list"

record Web =
  uri :: "jsstring option"
  title :: "jsstring option"

record GroundingChunk =
  web :: "Web option"

record GroundingMetadata =
  groundingChunks :: "GroundingChunk list option"

record Candidate =
  groundingMetadata :: "GroundingMetadata option"

record response =
  response_text :: "jsstring option"
  candidates :: "Candidate list option"

text \<open>
  One call of the service either rejects (the service is unreachable, or the client
  library fails on what it received) or resolves with a response. The service is a
  parameter of every function that calls it, so that any reply can be injected.
\<close>

datatype outcome = Rejected js_error | Resolved response

type_synonym gateway = "request \<Rightarrow> outcome"

text \<open>
  What a call of a service function does: the requests it sent, what it wrote with
  \<^verbatim>\<open>console.error\<close>, and what it returned or threw (\<open>Inl\<close> the thrown error).
\<close>

datatype log_arg = ArgText jsstring | ArgError js_error

datatype log_entry = console_error string log_arg

record 'a call =
  sent :: "request list"
  logged :: "log_entry list"
  returned :: "js_error + 'a"

section \<open>The analysis functions\<close>

definition diseaseRequest :: "jsstring \<Rightarrow> request" where
  "diseaseRequest base64Image =
     \<lparr> model = ''gemini-3-flash-preview'',
       contents = Parts [InlineData ''image/jpeg'' base64Image, TextPart DiseasePrompt],
       systemInstruction = Some SYSTEM_INSTRUCTION,
       responseMimeType = Some ''application/json'',
       tools = [] \<rparr>"

definition analyzePlantImage :: "gateway \<Rightarrow> jsstring \<Rightarrow> json call" where
  "analyzePlantImage ai base64Image =
     (case ai (diseaseRequest base64Image) of
        Rejected e \<Rightarrow> \<lparr> sent = [diseaseRequest base64Image], logged = [], returned = Inl e \<rparr>
      | Resolved response \<Rightarrow>
          if no_text (response_text response) then
            \<lparr> sent = [diseaseRequest base64Image], logged = [],
              returned = Inl (Error ''No response from AI'') \<rparr>
          else
            (case JSON_parse (the (response_text response)) of
               Some v \<Rightarrow> \<lparr> sent = [diseaseRequest base64Image], logged = [], returned = Inr v \<rparr>
             | None \<Rightarrow>
                 \<lparr> sent = [diseaseRequest base64Image],
                   logged = [console_error ''Failed to parse AI response:''
                               (ArgText (the (response_text response)))],
                   returned = Inl (Error ''Invalid response format from AI'') \<rparr>))"

definition soilRequest :: "jsstring \<Rightarrow> request" where
  "soilRequest base64Image =
     \<lparr> model = ''gemini-3-flash-preview'',
       contents = Parts [InlineData ''image/jpeg'' base64Image, TextPart SoilPrompt],
       systemInstruction = Some SOIL_ANALYSER_INSTRUCTION,
       responseMimeType = Some ''application/json'',
       tools = [] \<rparr>"

definition analyzeSoilReport :: "gateway \<Rightarrow> jsstring \<Rightarrow> json call" where
  "analyzeSoilReport ai base64Image =
     (case ai (soilRequest base64Image) of
        Rejected e \<Rightarrow> \<lparr> sent = [soilRequest base64Image], logged = [], returned = Inl e \<rparr>
      | Resolved response \<Rightarrow>
          if no_text (response_text response) then
            \<lparr> sent = [soilRequest base64Image], logged = [],
              returned = Inl (Error ''No response from AI'') \<rparr>
          else
            (case JSON_parse (the (response_text response)) of
               Some v \<Rightarrow> \<lparr> sent = [soilRequest base64Image], logged = [], returned = Inr v \<rparr>
             | None \<Rightarrow>
                 \<lparr> sent = [soilRequest base64Image],
                   logged = [console_error ''Failed to parse soil report:''
                               (ArgText (the (response_text response)))],
                   returned = Inl (Error ''Invalid response format from AI'') \<rparr>))"

definition seedRequest :: "jsstring \<Rightarrow> request" where
  "seedRequest base64Image =
     \<lparr> model = ''gemini-3-flash-preview'',
       contents = Parts [InlineData ''image/jpeg'' base64Image, TextPart SeedPrompt],
       systemInstruction = Some SEED_ANALYSER_INSTRUCTION,
       responseMimeType = Some ''application/json'',
       tools = [] \<rparr>"

definition analyzeSeedImage :: "gateway \<Rightarrow> jsstring \<Rightarrow> json call" where
  "analyzeSeedImage ai base64Image =
     (case ai (seedRequest base64Image) of
        Rejected e \<Rightarrow> \<lparr> sent = [seedRequest base64Image], logged = [], returned = Inl e \<rparr>
      | Resolved response \<Rightarrow>
          if no_text (response_text response) then
            \<lparr> sent = [seedRequest base64Image], logged = [],
              returned = Inl (Error ''No response from AI'') \<rparr>
          else
            (case JSON_parse (the (response_text response)) of
               Some v \<Rightarrow> \<lparr> sent = [seedRequest base64Image], logged = [], returned = Inr v \<rparr>
             | None \<Rightarrow>
                 \<lparr> sent = [seedRequest base64Image],
                   logged = [console_error ''Failed to parse seed report:''
                               (ArgText (the (response_text response)))],
                   returned = Inl (Error ''Invalid response format from AI'') \<rparr>))"

definition nutrientRequest :: "jsstring \<Rightarrow> request" where
  "nutrientRequest base64Image =
     \<lparr> model = ''gemini-3-flash-preview'',
       contents = Parts [InlineData ''image/jpeg'' base64Image, TextPart NutrientPrompt],
       systemInstruction = Some NUTRIENT_ANALYSER_INSTRUCTION,
       responseMimeType = Some ''application/json'',
       tools = [] \<rparr>"

definition analyzePlantNutrients :: "gateway \<Rightarrow> jsstring \<Rightarrow> json call" where
  "analyzePlantNutrients ai base64Image =
     (case ai (nutrientRequest base64Image) of
        Rejected e \<Rightarrow> \<lparr> sent = [nutrientRequest base64Image], logged = [], returned = Inl e \<rparr>
      | Resolved response \<Rightarrow>
          if no_text (response_text response) then
            \<lparr> sent = [nutrientRequest base64Image], logged = [],
              returned = Inl (Error ''No response from AI'') \<rparr>
          else
            (case JSON_parse (the (response_text response)) of
               Some v \<Rightarrow> \<lparr> sent = [nutrientRequest base64Image], logged = [], returned = Inr v \<rparr>
             | None \<Rightarrow>
                 \<lparr> sent = [nutrientRequest base64Image],
                   logged = [console_error ''Failed to parse nutrient report:''
                               (ArgText (the (response_text response)))],
                   returned = Inl (Error ''Invalid response format from AI'') \<rparr>))"

section \<open>The weather function\<close>

definition weatherRequest :: "jsstring \<Rightarrow> request" where
  "weatherRequest location =
     \<lparr> model = ''gemini-3-flash-preview'',
       contents = Prompt (WeatherPrompt location),
       systemInstruction = None,
       responseMimeType = Some ''application/json'',
       tools = [googleSearch] \<rparr>"

text \<open>\<^verbatim>\<open>response.text || "{}"\<close>: the default replaces a missing or empty text.\<close>

definition text_or :: "jsstring option \<Rightarrow> jsstring \<Rightarrow> jsstring" where
  "text_or t d = (case t of None \<Rightarrow> d | Some cs \<Rightarrow> if cs = [] then d else cs)"

text \<open>\<^verbatim>\<open>response.candidates?.[0]?.groundingMetadata\<close>\<close>

definition first_groundingMetadata :: "response \<Rightarrow> GroundingMetadata option" where
  "first_groundingMetadata response =
     (case candidates response of
        None \<Rightarrow> None
      | Some [] \<Rightarrow> None
      | Some (c # cs) \<Rightarrow> groundingMetadata c)"

text \<open>
  The object \<^verbatim>\<open>{ data, groundingMetadata }\<close> that \<^verbatim>\<open>getWeatherDetails\<close> returns;
  \<open>data\<close> is \<open>JNull\<close> when the text did not parse.
\<close>

record WeatherDetails =
  data :: json
  groundingMetadata_r :: "GroundingMetadata option"

definition getWeatherDetails :: "gateway \<Rightarrow> jsstring \<Rightarrow> WeatherDetails call" where
  "getWeatherDetails ai location =
     (case ai (weatherRequest location) of
        Rejected e \<Rightarrow> \<lparr> sent = [weatherRequest location], logged = [], returned = Inl e \<rparr>
      | Resolved response \<Rightarrow>
          (case JSON_parse (text_or (response_text response) (ascii ''{}'')) of
             Some v \<Rightarrow>
               \<lparr> sent = [weatherRequest location], logged = [],
                 returned = Inr \<lparr> data = v,
                                  groundingMetadata_r = first_groundingMetadata response \<rparr> \<rparr>
           | None \<Rightarrow>
               \<lparr> sent = [weatherRequest location],
                 logged = [console_error ''Failed to parse weather JSON'' (ArgError SyntaxError)],
                 returned = Inr \<lparr> data = JNull,
                                  groundingMetadata_r = first_groundingMetadata response \<rparr> \<rparr>))"

section \<open>The chat functions\<close>

text \<open>
  \<^verbatim>\<open>ai.chats.create\<close> and \<^verbatim>\<open>chat.sendMessage\<close> belong to the client library. A chat holds
  the model, the system instruction and a history; a chat created without the optional
  \<^verbatim>\<open>history\<close> parameter starts with the empty history. \<^verbatim>\<open>sendMessage\<close> sends the
  chat's history followed by the new user message.
\<close>

record chat =
  chat_model :: string
  chat_systemInstruction :: "instruction option"
  chat_history :: "(role \<times> jsstring) list"

definition chats_create ::
  "string \<Rightarrow> instruction option \<Rightarrow> (role \<times> jsstring) list option \<Rightarrow> chat" where
  "chats_create m instr history =
     \<lparr> chat_model = m,
       chat_systemInstruction = instr,
       chat_history = (case history of None \<Rightarrow> [] | Some h \<Rightarrow> h) \<rparr>"

definition sendMessage :: "chat \<Rightarrow> jsstring \<Rightarrow> request" where
  "sendMessage c message =
     \<lparr> model = chat_model c,
       contents = Turns (chat_history c @ [(User, message)]),
       systemInstruction = chat_systemInstruction c,
       responseMimeType = None,
       tools = [] \<rparr>"

text \<open>
  Each chat function creates a chat from the model and its persona instruction only, and
  sends the new message. It returns \<^verbatim>\<open>response.text\<close>, which may be \<^verbatim>\<open>undefined\<close>.
\<close>

definition chatWithBotanist ::
  "gateway \<Rightarrow> (role \<times> jsstring) list \<Rightarrow> jsstring \<Rightarrow> jsstring option call" where
  "chatWithBotanist ai history newMessage =
     (let c = chats_create ''gemini-3-flash-preview'' (Some SYSTEM_INSTRUCTION) None
      in case ai (sendMessage c newMessage) of
           Rejected e \<Rightarrow> \<lparr> sent = [sendMessage c newMessage], logged = [], returned = Inl e \<rparr>
         | Resolved response \<Rightarrow>
             \<lparr> sent = [sendMessage c newMessage], logged = [],
               returned = Inr (response_text response) \<rparr>)"

definition chatWithGardenMaster ::
  "gateway \<Rightarrow> (role \<times> jsstring) list \<Rightarrow> jsstring \<Rightarrow> jsstring option call" where
  "chatWithGardenMaster ai history newMessage =
     (let c = chats_create ''gemini-3-flash-preview'' (Some GARDENING_MASTER_INSTRUCTION) None
      in case ai (sendMessage c newMessage) of
           Rejected e \<Rightarrow> \<lparr> sent = [sendMessage c newMessage], logged = [], returned = Inl e \<rparr>
         | Resolved response \<Rightarrow>
             \<lparr> sent = [sendMessage c newMessage], logged = [],
               returned = Inr (response_text response) \<rparr>)"

definition chatWithSoilExpert ::
  "gateway \<Rightarrow> (role \<times> jsstring) list \<Rightarrow> jsstring \<Rightarrow> jsstring option call" where
  "chatWithSoilExpert ai history newMessage =
     (let c = chats_create ''gemini-3-flash-preview'' (Some SOIL_EXPERT_CHAT_INSTRUCTION) None
      in case ai (sendMessage c newMessage) of
           Rejected e \<Rightarrow> \<lparr> sent = [sendMessage c newMessage], logged = [], returned = Inl e \<rparr>
         | Resolved response \<Rightarrow>
             \<lparr> sent = [sendMessage c newMessage], logged = [],
               returned = Inr (response_text response) \<rparr>)"

section \<open>The nutrient analyzer component\<close>

record HistoryItem =
  item_id :: jsstring
  timestamp :: nat
  item_type :: string
  plantName :: string
  imageUrl :: jsstring
  nutrientData :: json

text \<open>
  The component's state (\<open>isAnalyzing\<close>, \<open>result\<close>, \<open>error\<close>, \<open>currentImage\<close>) and a trace
  of its effects: the console, the requests sent, and the items handed to the
  \<^verbatim>\<open>onAddToHistory\<close> callback.
\<close>

record NutrientAnalyzer =
  isAnalyzing :: bool
  result :: "json option"
  error :: "string option"
  currentImage :: "jsstring option"
  console :: "log_entry list"
  requests :: "request list"
  onAddToHistory_calls :: "HistoryItem list"

text \<open>The \<^verbatim>\<open>catch\<close> block of \<^verbatim>\<open>performAnalysis\<close>, followed by its \<^verbatim>\<open>finally\<close>.\<close>

definition analysis_failed :: "js_error \<Rightarrow> NutrientAnalyzer \<Rightarrow> NutrientAnalyzer" where
  "analysis_failed err s =
     s\<lparr> console := console s @ [console_error ''Nutrient analysis error:'' (ArgError err)],
        error := Some ''Failed to analyze nutrients. Please ensure the plant leaf is clearly visible.'',
        isAnalyzing := False \<rparr>"

text \<open>
  \<^verbatim>\<open>performAnalysis\<close>. The callback \<^verbatim>\<open>onAddToHistory\<close> is a property of the component:
  it returns \<open>None\<close> when it returns normally and \<open>Some e\<close> when it throws \<open>e\<close>, which the
  \<^verbatim>\<open>try\<close> block catches like any other error. \<open>uuid\<close> and \<open>now\<close> are the values of
  \<^verbatim>\<open>crypto.randomUUID()\<close> and \<^verbatim>\<open>Date.now()\<close>.
\<close>

definition performAnalysis ::
  "gateway \<Rightarrow> (HistoryItem \<Rightarrow> js_error option) \<Rightarrow> jsstring \<Rightarrow> nat \<Rightarrow> jsstring
     \<Rightarrow> NutrientAnalyzer \<Rightarrow> NutrientAnalyzer" where
  "performAnalysis ai onAddToHistory uuid now base64 s =
     (let c = analyzePlantNutrients ai base64;
          s1 = s\<lparr> isAnalyzing := True, result := None, error := None,
                  console := console s @ logged c, requests := requests s @ sent c \<rparr>
      in case returned c of
           Inl err \<Rightarrow> analysis_failed err s1
         | Inr d \<Rightarrow>
             if \<not> truthy d then
               analysis_failed (Error ''Nutrient analysis returned empty data.'') s1
             else
               (let historyItem =
                      \<lparr> item_id = uuid, timestamp = now, item_type = ''nutrient-analysis'',
                        plantName = ''Plant Nutrient Check'', imageUrl = base64,
                        nutrientData = d \<rparr>;
                    s2 = s1\<lparr> result := Some d,
                             onAddToHistory_calls := onAddToHistory_calls s1 @ [historyItem] \<rparr>
                in case onAddToHistory historyItem of
                     Some err \<Rightarrow> analysis_failed err s2
                   | None \<Rightarrow> s2\<lparr> isAnalyzing := False \<rparr>))"

text \<open>
  \<^verbatim>\<open>handleFileUpload\<close>. The file reader yields the data URL of the selected file,
  \<^verbatim>\<open>data:<type>;base64,<payload>\<close>; the handler keeps what stands between the first and
  the second comma. A data URL contains a comma, so the split has a second piece
  (\<open>split_on_second\<close> below) and the last branch is never taken.
\<close>

record File =
  file_type :: jsstring
  file_base64 :: jsstring

definition readAsDataURL :: "File \<Rightarrow> jsstring" where
  "readAsDataURL f = ascii ''data:'' @ file_type f @ ascii '';base64,'' @ file_base64 f"

fun split_on :: "nat \<Rightarrow> jsstring \<Rightarrow> jsstring list" where
  "split_on sep [] = [[]]"
| "split_on sep (c # cs) =
     (if c = sep then [] # split_on sep cs
      else (case split_on sep cs of [] \<Rightarrow> [[c]] | p # ps \<Rightarrow> (c # p) # ps))"

definition handleFileUpload ::
  "gateway \<Rightarrow> (HistoryItem \<Rightarrow> js_error option) \<Rightarrow> jsstring \<Rightarrow> nat \<Rightarrow> File option
     \<Rightarrow> NutrientAnalyzer \<Rightarrow> NutrientAnalyzer" where
  "handleFileUpload ai onAddToHistory uuid now file s =
     (case file of
        None \<Rightarrow> s
      | Some f \<Rightarrow>
          (case split_on 0x2C (readAsDataURL f) of
             p # base64String # ps \<Rightarrow>
               performAnalysis ai onAddToHistory uuid now base64String
                 (s\<lparr> currentImage := Some base64String \<rparr>)
           | _ \<Rightarrow> s))"

section \<open>The weather component\<close>

record Weather =
  weatherData :: "json option"
  groundingMetadata_s :: "GroundingMetadata option"
  loading :: bool
  error_w :: "string option"
  console_w :: "log_entry list"
  requests_w :: "request list"

definition performSearch :: "gateway \<Rightarrow> jsstring \<Rightarrow> Weather \<Rightarrow> Weather" where
  "performSearch ai query s =
     (let c = getWeatherDetails ai query;
          s1 = s\<lparr> loading := True, weatherData := None, groundingMetadata_s := None,
                  error_w := None,
                  console_w := console_w s @ logged c, requests_w := requests_w s @ sent c \<rparr>
      in case returned c of
           Inl err \<Rightarrow>
             s1\<lparr> error_w := Some ''Could not fetch weather data. Please try again.'',
                 loading := False \<rparr>
         | Inr r \<Rightarrow>
             if truthy (data r) then
               s1\<lparr> weatherData := Some (data r),
                   groundingMetadata_s := groundingMetadata_r r,
                   loading := False \<rparr>
             else
               s1\<lparr> error_w := Some ''Could not parse weather data. Please try again.'',
                   loading := False \<rparr>)"

text \<open>
  The view reads \<^verbatim>\<open>weatherData.current.temp.replace(/[^0-9.-]/g, '')\<close> when it renders a
  stored result. A read of a property on \<^verbatim>\<open>undefined\<close> or \<^verbatim>\<open>null\<close> throws a
  \<open>TypeError\<close>, and so does the call of \<^verbatim>\<open>replace\<close> on a value that is not a string.
  \<open>member\<close> is the read of a property that only an object's own members can define
  (\<open>None\<close> is \<^verbatim>\<open>undefined\<close>).
\<close>

definition member :: "string \<Rightarrow> json option \<Rightarrow> js_error + json option" where
  "member k v =
     (case v of
        None \<Rightarrow> Inl TypeError
      | Some JNull \<Rightarrow> Inl TypeError
      | Some w \<Rightarrow> Inr (field k w))"

definition renderCurrentTemp :: "json \<Rightarrow> js_error + jsstring" where
  "renderCurrentTemp wd =
     (case member ''current'' (Some wd) of
        Inl e \<Rightarrow> Inl e
      | Inr cur \<Rightarrow>
          (case member ''temp'' cur of
             Inl e \<Rightarrow> Inl e
           | Inr (Some (JString t)) \<Rightarrow>
               Inr (filter (\<lambda>c. is_digit c \<or> c = 0x2E \<or> c = 0x2D) t)
           | Inr _ \<Rightarrow> Inl TypeError))"

text \<open>
  The list of source links of the view: one anchor for each grounding chunk whose
  \<^verbatim>\<open>web.uri\<close> is truthy, labelled with the chunk's title or, without a title, with the
  host of the link. \<open>hostname\<close> stands for \<^verbatim>\<open>new URL(uri).hostname\<close> of the platform; it
  is \<open>None\<close> where the constructor throws.
\<close>

datatype anchor = Anchor (href: jsstring) (label: jsstring)

definition link :: "GroundingChunk \<Rightarrow> jsstring option" where
  "link chunk =
     (case web chunk of
        None \<Rightarrow> None
      | Some w \<Rightarrow> (case uri w of None \<Rightarrow> None | Some u \<Rightarrow> if u = [] then None else Some u))"

definition chunk_title :: "GroundingChunk \<Rightarrow> jsstring option" where
  "chunk_title chunk =
     (case web chunk of
        None \<Rightarrow> None
      | Some w \<Rightarrow> (case title w of None \<Rightarrow> None | Some t \<Rightarrow> if t = [] then None else Some t))"

definition renderChunk ::
  "(jsstring \<Rightarrow> jsstring option) \<Rightarrow> GroundingChunk \<Rightarrow> js_error + anchor option" where
  "renderChunk hostname chunk =
     (case link chunk of
        None \<Rightarrow> Inr None
      | Some u \<Rightarrow>
          (case chunk_title chunk of
             Some t \<Rightarrow> Inr (Some (Anchor u t))
           | None \<Rightarrow>
               (case hostname u of
                  None \<Rightarrow> Inl TypeError
                | Some h \<Rightarrow> Inr (Some (Anchor u h)))))"

fun renderChunks ::
  "(jsstring \<Rightarrow> jsstring option) \<Rightarrow> GroundingChunk list \<Rightarrow> js_error + anchor list" where
  "renderChunks hostname [] = Inr []"
| "renderChunks hostname (chunk # chunks) =
     (case renderChunk hostname chunk of
        Inl e \<Rightarrow> Inl e
      | Inr a \<Rightarrow>
          (case renderChunks hostname chunks of
             Inl e \<Rightarrow> Inl e
           | Inr as \<Rightarrow> Inr (case a of None \<Rightarrow> as | Some x \<Rightarrow> x # as)))"

text \<open>
  The view of a stored result. Everything that the component renders for the weather data
  stands in one block that is guarded by \<^verbatim>\<open>weatherData &&\<close>: the location, the current
  temperature, condition, humidity and wind, the forecast days, the two risks with their
  summary, the farming tip and, last, the source links. The expressions are evaluated in
  the order of the source, and the first one that throws ends the rendering, so that no
  part of the block is shown.
\<close>

definition andThen :: "js_error + 'a \<Rightarrow> ('a \<Rightarrow> js_error + 'b) \<Rightarrow> js_error + 'b" where
  "andThen x f = (case x of Inl e \<Rightarrow> Inl e | Inr a \<Rightarrow> f a)"

text \<open>
  \<^verbatim>\<open>toLowerCase\<close> and \<^verbatim>\<open>includes\<close> of strings (\<open>str_includes\<close>). Only the letters A to Z are mapped: no
  other character is turned into a run of letters that completes one of the words the
  view looks for.
\<close>

definition toLowerCase :: "jsstring \<Rightarrow> jsstring" where
  "toLowerCase s = map (\<lambda>c. if 0x41 \<le> c \<and> c \<le> 0x5A then c + 0x20 else c) s"

fun str_includes :: "jsstring \<Rightarrow> string \<Rightarrow> bool" where
  "str_includes [] w = (w = [])"
| "str_includes (c # cs) w = (take (length w) (c # cs) = ascii w \<or> str_includes cs w)"

text \<open>
  \<^verbatim>\<open>getWeatherIcon\<close> calls \<^verbatim>\<open>condition.toLowerCase()\<close>, which throws unless the
  condition is a string. The icons are named after what they show.
\<close>

datatype icon = RainIcon | StormIcon | CloudIcon | SnowIcon | SunIcon | FogIcon | FairIcon

definition getWeatherIcon :: "json option \<Rightarrow> js_error + icon" where
  "getWeatherIcon condition =
     (case condition of
        Some (JString s) \<Rightarrow>
          (let c = toLowerCase s
           in Inr (if str_includes c ''rain'' \<or> str_includes c ''drizzle'' then RainIcon
                   else if str_includes c ''storm'' \<or> str_includes c ''thunder'' then StormIcon
                   else if str_includes c ''cloud'' then CloudIcon
                   else if str_includes c ''snow'' then SnowIcon
                   else if str_includes c ''clear'' \<or> str_includes c ''sunny'' then SunIcon
                   else if str_includes c ''mist'' \<or> str_includes c ''fog'' then FogIcon
                   else FairIcon))
      | _ \<Rightarrow> Inl TypeError)"

text \<open>
  \<^verbatim>\<open>getRiskColor\<close> evaluates \<^verbatim>\<open>prob?.toLowerCase()\<close>: \<^verbatim>\<open>undefined\<close> and \<^verbatim>\<open>null\<close> fall
  through to the default, a string is compared with \<^verbatim>\<open>high\<close> and \<^verbatim>\<open>medium\<close>, and any
  other value throws, since it has no such method.
\<close>

datatype risk_colour = Red | Orange | Emerald

definition getRiskColor :: "json option \<Rightarrow> js_error + risk_colour" where
  "getRiskColor prob =
     (case prob of
        None \<Rightarrow> Inr Emerald
      | Some JNull \<Rightarrow> Inr Emerald
      | Some (JString s) \<Rightarrow>
          Inr (if toLowerCase s = ascii ''high'' then Red
               else if toLowerCase s = ascii ''medium'' then Orange
               else Emerald)
      | Some _ \<Rightarrow> Inl TypeError)"

text \<open>
  One day of \<^verbatim>\<open>weatherData.forecast.map(...)\<close>: the icon of the day and the values shown
  as text. The forecast itself must be an array.
\<close>

definition renderDay :: "json \<Rightarrow> js_error + icon \<times> json option list" where
  "renderDay d =
     andThen (member ''day'' (Some d)) (\<lambda>day.
     andThen (member ''condition'' (Some d)) (\<lambda>condition.
     andThen (getWeatherIcon condition) (\<lambda>ic.
     andThen (member ''temp'' (Some d)) (\<lambda>temp.
     Inr (ic, [day, temp, condition])))))"

fun renderDays :: "json list \<Rightarrow> js_error + (icon \<times> json option list) list" where
  "renderDays [] = Inr []"
| "renderDays (d # ds) =
     (case renderDay d of
        Inl e \<Rightarrow> Inl e
      | Inr x \<Rightarrow> (case renderDays ds of Inl e \<Rightarrow> Inl e | Inr xs \<Rightarrow> Inr (x # xs)))"

definition renderForecast :: "json option \<Rightarrow> js_error + (icon \<times> json option list) list" where
  "renderForecast forecast =
     (case forecast of
        Some (JArray days) \<Rightarrow> renderDays days
      | _ \<Rightarrow> Inl TypeError)"

text \<open>
  What the block reads from the weather data, in the order of the source: the temperature
  with everything but digits, dot and minus removed, the icons of the current condition
  and of the days, the colours of the two risks, and the values shown as text.
\<close>

record WeatherReads =
  temperature :: jsstring
  icons :: "icon list"
  flood_colour :: risk_colour
  cyclone_colour :: risk_colour
  children :: "json option list"

definition weatherReads :: "json \<Rightarrow> js_error + WeatherReads" where
  "weatherReads wd =
     andThen (renderCurrentTemp wd) (\<lambda>temp.
     andThen (member ''current'' (Some wd)) (\<lambda>cur.
     andThen (member ''condition'' cur) (\<lambda>condition.
     andThen (getWeatherIcon condition) (\<lambda>ic.
     andThen (member ''humidity'' cur) (\<lambda>humidity.
     andThen (member ''wind'' cur) (\<lambda>wind.
     andThen (member ''forecast'' (Some wd)) (\<lambda>forecast.
     andThen (renderForecast forecast) (\<lambda>days.
     andThen (member ''risks'' (Some wd)) (\<lambda>risks.
     andThen (member ''floodProbability'' risks) (\<lambda>flood.
     andThen (getRiskColor flood) (\<lambda>fc.
     andThen (member ''cycloneProbability'' risks) (\<lambda>cyclone.
     andThen (getRiskColor cyclone) (\<lambda>cc.
     andThen (member ''details'' risks) (\<lambda>details.
     Inr \<lparr> temperature = temp,
           icons = ic # map fst days,
           flood_colour = fc,
           cyclone_colour = cc,
           children = [field ''locationName'' wd, condition, humidity, wind]
                      @ concat (map snd days)
                      @ [flood, cyclone, details, field ''farmingTip'' wd] \<rparr>))))))))))))))"

text \<open>
  A value shown as text must be a valid child of an element: a plain object is not, and
  an array is one when its elements are. With an invalid child the rendering fails after
  the component has returned (the message goes on to name the keys found).
\<close>

fun valid_child :: "json \<Rightarrow> bool" where
  "valid_child (JObject ms) = False"
| "valid_child (JArray es) = list_all valid_child es"
| "valid_child v = True"

definition valid_children :: "json option list \<Rightarrow> bool" where
  "valid_children cs = list_all (\<lambda>c. case c of None \<Rightarrow> True | Some v \<Rightarrow> valid_child v) cs"

text \<open>
  The block as a whole, for a state of the component. Without weather data there is no
  card and no source link (a falsy value is never stored by \<^verbatim>\<open>performSearch\<close>). The
  source links are the last part of the card: \<open>None\<close> when the state holds no grounding
  chunks, and otherwise the anchors of the chunks.
\<close>

datatype view = NoCard | Card WeatherReads "anchor list option"

definition renderWeatherData ::
  "(jsstring \<Rightarrow> jsstring option) \<Rightarrow> Weather \<Rightarrow> js_error + view" where
  "renderWeatherData hostname s =
     (case weatherData s of
        None \<Rightarrow> Inr NoCard
      | Some wd \<Rightarrow>
          if \<not> truthy wd then Inr NoCard
          else
            andThen (weatherReads wd) (\<lambda>reads.
            andThen (case groundingMetadata_s s of
                       None \<Rightarrow> Inr None
                     | Some m \<Rightarrow>
                         (case groundingChunks m of
                            None \<Rightarrow> Inr None
                          | Some chunks \<Rightarrow>
                              andThen (renderChunks hostname chunks) (\<lambda>as. Inr (Some as))))
              (\<lambda>sources.
            if valid_children (children reads) then Inr (Card reads sources)
            else Inl (Error ''Objects are not valid as a React child''))))"

section \<open>The shapes the prompts ask for\<close>

text \<open>
  Each prompt spells out the JSON object it asks the service for. \<open>required_fields\<close> lists
  the members of that object, and \<open>has_required_fields\<close> says that a value is an object
  with all of them. No function of the source performs this test.
\<close>

datatype kind = Disease | Soil | Seed | Nutrient | WeatherKind

fun required_fields :: "kind \<Rightarrow> string list" where
  "required_fields Disease =
     [''plantName'', ''diseaseName'', ''severity'', ''symptoms'', ''cures'', ''purchaseLinks'',
      ''prevention'']"
| "required_fields Soil =
     [''phValue'', ''nitrogen'', ''phosphorus'', ''potassium'', ''organicMatter'',
      ''suitableCrops'', ''improvementTips'']"
| "required_fields Seed =
     [''seedName'', ''plantName'', ''description'', ''cultivationPlaces'', ''bestSoil'',
      ''growthTips'']"
| "required_fields Nutrient =
     [''healthScore'', ''deficiencies'', ''symptoms'', ''recommendations'']"
| "required_fields WeatherKind =
     [''locationName'', ''current'', ''forecast'', ''risks'', ''farmingTip'']"

definition has_required_fields :: "kind \<Rightarrow> json \<Rightarrow> bool" where
  "has_required_fields k v = list_all (\<lambda>f. field f v \<noteq> None) (required_fields k)"

text \<open>A service that answers every request with the same text and no candidates.\<close>

definition reply :: "string \<Rightarrow> gateway" where
  "reply t = (\<lambda>req. Resolved \<lparr> response_text = Some (ascii t), candidates = None \<rparr>)"

section \<open>Observations\<close>

text \<open>
  Functions that read off a call or a state what the properties below speak about: a
  member of the returned value, the MIME types of the attachments of a request, what the
  nutrient analyzer shows to the user, and the outcome of parsing a non-empty reply text
  in the four image analyses.
\<close>

definition result_field :: "string \<Rightarrow> json call \<Rightarrow> json option" where
  "result_field k c = (case returned c of Inl e \<Rightarrow> None | Inr v \<Rightarrow> field k v)"

fun attachment_type :: "part \<Rightarrow> string option" where
  "attachment_type (InlineData m d) = Some m"
| "attachment_type (TextPart p) = None"

definition attachment_types :: "request \<Rightarrow> string list" where
  "attachment_types req =
     (case contents req of Parts ps \<Rightarrow> List.map_filter attachment_type ps | _ \<Rightarrow> [])"

definition user_visible :: "NutrientAnalyzer \<Rightarrow> bool \<times> json option \<times> string option \<times> jsstring option" where
  "user_visible s = (isAnalyzing s, result s, error s, currentImage s)"

definition parse_outcome :: "jsstring \<Rightarrow> js_error + json" where
  "parse_outcome t =
     (case JSON_parse t of
        None \<Rightarrow> Inl (Error ''Invalid response format from AI'')
      | Some v \<Rightarrow> Inr v)"

text \<open>
  The weather data renders: every read of the view succeeds and every value shown as text
  is a valid child.
\<close>

definition renders :: "json \<Rightarrow> bool" where
  "renders wd =
     (case weatherReads wd of
        Inl e \<Rightarrow> False
      | Inr reads \<Rightarrow> valid_children (children reads))"

text \<open>The states of the two components when they are mounted.\<close>

definition NutrientAnalyzer_initial :: NutrientAnalyzer where
  "NutrientAnalyzer_initial =
     \<lparr> isAnalyzing = False, result = None, error = None, currentImage = None,
       console = [], requests = [], onAddToHistory_calls = [] \<rparr>"

definition Weather_initial :: Weather where
  "Weather_initial =
     \<lparr> weatherData = None, groundingMetadata_s = None, loading = False, error_w = None,
       console_w = [], requests_w = [] \<rparr>"

section \<open>Example services, replies and files\<close>


definition empty_payload :: "jsstring option \<Rightarrow> gateway" where
  "empty_payload t = (\<lambda>req. Resolved \<lparr> response_text = t, candidates = None \<rparr>)"

definition linked_chunk :: GroundingChunk where
  "linked_chunk =
     \<lparr> web = Some \<lparr> uri = Some (ascii ''https://weather.example/pune''),
                     title = Some (ascii ''Pune forecast'') \<rparr> \<rparr>"

definition unlinked_chunk :: GroundingChunk where
  "unlinked_chunk = \<lparr> web = Some \<lparr> uri = None, title = Some (ascii ''No link'') \<rparr> \<rparr>"

definition weather_reply :: string where
  \<open>weather_reply = ''{"locationName":"Pune, Maharashtra","current":{"temp":"30 C","condition":"Light Rain","humidity":"82%","wind":"12 km/h"},"forecast":[{"day":"Mon","temp":"29 C","condition":"Cloudy"},{"day":"Tue","temp":"31 C","condition":"Sunny"},{"day":"Wed","temp":"28 C","condition":"Thunderstorm"}],"risks":{"floodProbability":"Medium","cycloneProbability":"Low","details":"Heavy showers possible"},"farmingTip":"Delay spraying until Tuesday"}''\<close>

definition grounded :: gateway where
  "grounded =
     (\<lambda>req. Resolved
        \<lparr> response_text = Some (ascii weather_reply),
          candidates = Some [\<lparr> groundingMetadata =
            Some \<lparr> groundingChunks = Some [linked_chunk, unlinked_chunk] \<rparr> \<rparr>] \<rparr>)"

text \<open>
  Reply texts: the reply of the end-to-end scenario of the specification and the value it
  parses to, a reply with one member only, a reply cut off in the middle, a reply that is
  prose, a weather reply without the members the view reads, replies with a health score
  inside and outside the range 0 to 100, and replies with the sentinel strings.
\<close>

definition stub_reply :: string where
  \<open>stub_reply = ''{"healthScore":45,"deficiencies":["Nitrogen"],"symptoms":["yellowing leaves"],"recommendations":["apply nitrogen-rich fertilizer"]}''\<close>

definition stub_value :: json where
  "stub_value =
     JObject
       [(ascii ''healthScore'', JNumber 45 0),
        (ascii ''deficiencies'', JArray [JString (ascii ''Nitrogen'')]),
        (ascii ''symptoms'', JArray [JString (ascii ''yellowing leaves'')]),
        (ascii ''recommendations'', JArray [JString (ascii ''apply nitrogen-rich fertilizer'')])]"

definition partial_reply :: string where
  \<open>partial_reply = ''{"healthScore":45}''\<close>

definition truncated_reply :: string where
  \<open>truncated_reply = ''{"healthScore":45,"deficiencies":["Nit''\<close>

definition garbled_reply :: string where
  "garbled_reply = ''I cannot analyse this image.''"


definition score_83_reply :: string where
  \<open>score_83_reply = ''{"healthScore": 83, "deficiencies": [], "symptoms": [], "recommendations": []}''\<close>

definition score_250_reply :: string where
  \<open>score_250_reply = ''{"healthScore": 250, "deficiencies": [], "symptoms": [], "recommendations": []}''\<close>

definition score_minus_7_reply :: string where
  \<open>score_minus_7_reply = ''{"healthScore": -7, "deficiencies": [], "symptoms": [], "recommendations": []}''\<close>

definition none_sentinel_reply :: string where
  \<open>none_sentinel_reply = ''{"healthScore": 96, "deficiencies": ["None"], "symptoms": [], "recommendations": []}''\<close>

definition na_sentinel_reply :: string where
  \<open>na_sentinel_reply = ''{"phValue": "N/A", "nitrogen": "N/A", "phosphorus": "N/A", "potassium": "N/A", "organicMatter": "N/A", "suitableCrops": [], "improvementTips": []}''\<close>

text \<open>A file of type \<^verbatim>\<open>image/png\<close> with its base64 payload.\<close>

definition png_file :: File where
  "png_file = \<lparr> file_type = ascii ''image/png'', file_base64 = ascii ''iVBORw0KGgo='' \<rparr>"

section \<open>Parsing the example replies\<close>

lemma JSON_parse_empty: "JSON_parse [] = None"
  by (simp add: JSON_parse_def)

lemma parse_braces: "JSON_parse (ascii ''{}'') = Some (JObject [])"
  by code_simp

lemma parse_stub_reply: "JSON_parse (ascii stub_reply) = Some stub_value"
  by code_simp

lemma parse_partial_reply:
  "JSON_parse (ascii partial_reply) = Some (JObject [(ascii ''healthScore'', JNumber 45 0)])"
  by code_simp

lemma parse_truncated_reply: "JSON_parse (ascii truncated_reply) = None"
  by code_simp

lemma parse_garbled_reply: "JSON_parse (ascii garbled_reply) = None"
  by code_simp


lemma field_score_83:
  "map_option (field ''healthScore'') (JSON_parse (ascii score_83_reply)) = Some (Some (JNumber 83 0))"
  by code_simp

lemma field_score_250:
  "map_option (field ''healthScore'') (JSON_parse (ascii score_250_reply)) = Some (Some (JNumber 250 0))"
  by code_simp

lemma field_score_minus_7:
  "map_option (field ''healthScore'') (JSON_parse (ascii score_minus_7_reply)) = Some (Some (JNumber (- 7) 0))"
  by code_simp

lemma field_stub_healthScore: "field ''healthScore'' stub_value = Some (JNumber 45 0)"
  by code_simp

lemma field_stub_deficiencies:
  "field ''deficiencies'' stub_value = Some (JArray [JString (ascii ''Nitrogen'')])"
  by code_simp

lemma field_none_sentinel:
  "map_option (field ''deficiencies'') (JSON_parse (ascii none_sentinel_reply)) =
     Some (Some (JArray [JString (ascii ''None'')]))"
  by code_simp

lemma field_na_sentinel:
  "map_option (field ''phValue'') (JSON_parse (ascii na_sentinel_reply)) =
     Some (Some (JString (ascii ''N/A'')))"
  by code_simp

lemma parse_null: "JSON_parse (ascii ''null'') = Some JNull"
  by code_simp

lemma renders_weather_reply:
  "map_option renders (JSON_parse (ascii weather_reply)) = Some True"
  by code_simp

section \<open>The service functions, case by case\<close>

lemma no_text_Some: "no_text (Some t) = (t = [])"
  by (simp add: no_text_def)

lemma text_or_reply: "t \<noteq> [] \<Longrightarrow> text_or (Some (ascii t)) d = ascii t"
  by (simp add: text_or_def ascii_def)

lemma sent_analyzePlantImage: "sent (analyzePlantImage ai img) = [diseaseRequest img]"
  by (simp add: analyzePlantImage_def split: outcome.splits option.splits)

lemma sent_analyzeSoilReport: "sent (analyzeSoilReport ai img) = [soilRequest img]"
  by (simp add: analyzeSoilReport_def split: outcome.splits option.splits)

lemma sent_analyzeSeedImage: "sent (analyzeSeedImage ai img) = [seedRequest img]"
  by (simp add: analyzeSeedImage_def split: outcome.splits option.splits)

lemma sent_analyzePlantNutrients: "sent (analyzePlantNutrients ai img) = [nutrientRequest img]"
  by (simp add: analyzePlantNutrients_def split: outcome.splits option.splits)

lemma analyzePlantImage_text:
  assumes "ai (diseaseRequest img) = Resolved r" and "response_text r = Some t" and "t \<noteq> []"
  shows "returned (analyzePlantImage ai img) = parse_outcome t"
  using assms
  by (simp add: analyzePlantImage_def no_text_Some parse_outcome_def split: option.splits)

lemma analyzeSoilReport_text:
  assumes "ai (soilRequest img) = Resolved r" and "response_text r = Some t" and "t \<noteq> []"
  shows "returned (analyzeSoilReport ai img) = parse_outcome t"
  using assms
  by (simp add: analyzeSoilReport_def no_text_Some parse_outcome_def split: option.splits)

lemma analyzeSeedImage_text:
  assumes "ai (seedRequest img) = Resolved r" and "response_text r = Some t" and "t \<noteq> []"
  shows "returned (analyzeSeedImage ai img) = parse_outcome t"
  using assms
  by (simp add: analyzeSeedImage_def no_text_Some parse_outcome_def split: option.splits)

lemma analyzePlantNutrients_text:
  assumes "ai (nutrientRequest img) = Resolved r" and "response_text r = Some t" and "t \<noteq> []"
  shows "returned (analyzePlantNutrients ai img) = parse_outcome t"
  using assms
  by (simp add: analyzePlantNutrients_def no_text_Some parse_outcome_def split: option.splits)

lemma analyzePlantNutrients_logged:
  assumes "ai (nutrientRequest img) = Resolved r" and "response_text r = Some t" and "t \<noteq> []"
    and "JSON_parse t = None"
  shows "logged (analyzePlantNutrients ai img) =
           [console_error ''Failed to parse nutrient report:'' (ArgText t)]"
  using assms by (simp add: analyzePlantNutrients_def no_text_Some)

lemma getWeatherDetails_text:
  assumes "ai (weatherRequest location) = Resolved r"
  shows "returned (getWeatherDetails ai location) =
           Inr \<lparr> data = (case JSON_parse (text_or (response_text r) (ascii ''{}'')) of
                            None \<Rightarrow> JNull | Some v \<Rightarrow> v),
                   groundingMetadata_r = first_groundingMetadata r \<rparr>"
  using assms by (simp add: getWeatherDetails_def split: option.splits)

lemma reply_text:
  "t \<noteq> [] \<Longrightarrow> returned (analyzePlantNutrients (reply t) img) = parse_outcome (ascii t)"
  by (rule analyzePlantNutrients_text
        [where r = "\<lparr> response_text = Some (ascii t), candidates = None \<rparr>"])
     (simp_all add: reply_def ascii_def)

lemma result_field_reply:
  assumes "map_option (field k) (JSON_parse (ascii t)) = Some x"
  shows "result_field k (analyzePlantNutrients (reply t) img) = x"
proof -
  from assms obtain v where v: "JSON_parse (ascii t) = Some v" "field k v = x" by auto
  from v(1) have "t \<noteq> []" using JSON_parse_empty by (auto simp: ascii_def)
  then show ?thesis
    by (simp add: reply_text parse_outcome_def v result_field_def)
qed

lemma requests_performAnalysis:
  "requests (performAnalysis ai onAddToHistory uuid now base64 s) =
     requests s @ [nutrientRequest base64]"
  by (simp add: performAnalysis_def analysis_failed_def Let_def sent_analyzePlantNutrients
        split: sum.splits option.splits)


text \<open>Weather data that renders is an object, hence truthy, and is stored with the metadata.\<close>

lemma renders_truthy: "renders wd \<Longrightarrow> truthy wd"
  by (cases wd)
     (simp_all add: renders_def weatherReads_def andThen_def renderCurrentTemp_def member_def
        field_def)

lemma performSearch_stored:
  assumes "ai (weatherRequest location) = Resolved r"
    and "JSON_parse (text_or (response_text r) (ascii ''{}'')) = Some wd"
    and "truthy wd"
  shows "weatherData (performSearch ai location s) = Some wd"
    and "groundingMetadata_s (performSearch ai location s) = first_groundingMetadata r"
  using getWeatherDetails_text [where ai = ai and location = location and r = r, OF assms(1)]
    assms(2,3)
  by (simp_all add: performSearch_def Let_def)

text \<open>The data URL of a file splits into at least two pieces at its commas.\<close>

lemma split_on_second: "\<exists>p q ps. split_on sep (xs @ sep # ys) = p # q # ps"
proof (induction xs)
  case Nil
  show ?case by (cases ys) (auto split: list.splits)
next
  case (Cons x xs)
  then show ?case by (auto split: list.splits)
qed

lemma readAsDataURL_comma:
  "readAsDataURL f = (ascii ''data:'' @ file_type f @ ascii '';base64'') @ 0x2C # file_base64 f"
  by (simp add: readAsDataURL_def ascii_def)

lemma split_png: "split_on 0x2C (readAsDataURL png_file) =
  [ascii ''data:image/png;base64'', ascii ''iVBORw0KGgo='']"
  by code_simp

text \<open>
  The anchors of the view, when every chunk with a link has a title or a link that the
  URL constructor accepts: their targets are the links of the chunks, in order.
\<close>

lemma renderChunks_links:
  assumes "\<forall>c \<in> set chunks. link c \<noteq> None \<longrightarrow>
             chunk_title c \<noteq> None \<or> hostname (the (link c)) \<noteq> None"
  shows "\<exists>as. renderChunks hostname chunks = Inr as \<and> map href as = List.map_filter link chunks"
  using assms
proof (induction chunks)
  case Nil
  then show ?case by (simp add: List.map_filter_simps)
next
  case (Cons c chunks)
  then obtain as where as: "renderChunks hostname chunks = Inr as"
    "map href as = List.map_filter link chunks" by auto
  show ?case
  proof (cases "link c")
    case None
    with as show ?thesis by (simp add: renderChunk_def List.map_filter_simps)
  next
    case (Some u)
    with Cons.prems have "chunk_title c \<noteq> None \<or> hostname u \<noteq> None" by simp
    with Some as show ?thesis
      by (auto simp: renderChunk_def List.map_filter_simps split: option.splits)
  qed
qed

section \<open>The claims of the specification\<close>

subsection \<open>C1: a reply that does not fit the schema\<close>

text \<open>
  C1 as the specification states it: whenever the raw text is not a reply that fits the
  schema of its kind, be it invalid JSON or valid JSON without a required member, the
  call fails with a parse failure and returns no partly filled result.

  The code does not do this for valid JSON. The nutrient analysis of the reply
  \<^verbatim>\<open>{"healthScore":45}\<close> returns the object with its single member, although the members
  \<^verbatim>\<open>deficiencies\<close>, \<^verbatim>\<open>symptoms\<close> and \<^verbatim>\<open>recommendations\<close> are missing.
\<close>

theorem partial_result_counterexample:
  "returned (analyzePlantNutrients (reply partial_reply) (ascii ''aGk='')) =
     Inr (JObject [(ascii ''healthScore'', JNumber 45 0)])
   \<and> \<not> has_required_fields Nutrient (JObject [(ascii ''healthScore'', JNumber 45 0)])"
proof
  have "partial_reply \<noteq> []" by (simp add: partial_reply_def)
  then show "returned (analyzePlantNutrients (reply partial_reply) (ascii ''aGk='')) =
     Inr (JObject [(ascii ''healthScore'', JNumber 45 0)])"
    by (simp add: reply_text parse_outcome_def parse_partial_reply)
  show "\<not> has_required_fields Nutrient (JObject [(ascii ''healthScore'', JNumber 45 0)])"
    by (simp add: has_required_fields_def field_def ascii_def)
qed

text \<open>
  C1, amended: for a response with a non-empty text, each of the four image analyses
  throws the error \<^verbatim>\<open>Invalid response format from AI\<close> exactly when the text is not
  valid JSON, and otherwise returns the parsed value as it is, whatever members it has;
  the weather function never throws on the text and returns \<^verbatim>\<open>null\<close> as its data when
  the text is not valid JSON. No function compares the value with the schema of its kind.
\<close>

theorem parse_failure_iff_syntax_error:
  assumes "response_text r = Some t" and "t \<noteq> []"
  shows "(ai (diseaseRequest img) = Resolved r \<longrightarrow>
            returned (analyzePlantImage ai img) = parse_outcome t)
       \<and> (ai (soilRequest img) = Resolved r \<longrightarrow>
            returned (analyzeSoilReport ai img) = parse_outcome t)
       \<and> (ai (seedRequest img) = Resolved r \<longrightarrow>
            returned (analyzeSeedImage ai img) = parse_outcome t)
       \<and> (ai (nutrientRequest img) = Resolved r \<longrightarrow>
            returned (analyzePlantNutrients ai img) = parse_outcome t)
       \<and> (ai (weatherRequest location) = Resolved r \<longrightarrow>
            returned (getWeatherDetails ai location) =
              Inr \<lparr> data = (case JSON_parse t of None \<Rightarrow> JNull | Some v \<Rightarrow> v),
                      groundingMetadata_r = first_groundingMetadata r \<rparr>)"
  using assms
  by (simp add: analyzePlantImage_text analyzeSoilReport_text analyzeSeedImage_text
        analyzePlantNutrients_text getWeatherDetails_text text_or_def)

text \<open>
  The amended C1 on a reply that is cut off in the middle: the four image analyses throw
  the parse error and the weather function returns \<^verbatim>\<open>null\<close> data.
\<close>

theorem parse_failure_iff_syntax_error_witness:
  "returned (analyzePlantImage (reply truncated_reply) (ascii ''aGk='')) =
     Inl (Error ''Invalid response format from AI'')
   \<and> returned (analyzeSoilReport (reply truncated_reply) (ascii ''aGk='')) =
     Inl (Error ''Invalid response format from AI'')
   \<and> returned (analyzeSeedImage (reply truncated_reply) (ascii ''aGk='')) =
     Inl (Error ''Invalid response format from AI'')
   \<and> returned (analyzePlantNutrients (reply truncated_reply) (ascii ''aGk='')) =
     Inl (Error ''Invalid response format from AI'')
   \<and> returned (getWeatherDetails (reply truncated_reply) (ascii ''Pune'')) =
     Inr \<lparr> data = JNull, groundingMetadata_r = None \<rparr>"
proof -
  have t: "ascii truncated_reply \<noteq> []" by (simp add: truncated_reply_def ascii_def)
  have r: "response_text \<lparr> response_text = Some (ascii truncated_reply), candidates = None \<rparr>
             = Some (ascii truncated_reply)" by simp
  show ?thesis
    using parse_failure_iff_syntax_error
      [OF r t, of "reply truncated_reply" "ascii ''aGk=''" "ascii ''Pune''"]
    by (simp add: reply_def parse_outcome_def parse_truncated_reply first_groundingMetadata_def)
qed

subsection \<open>C2: the chat history\<close>

text \<open>
  C2 says that each of the three chat functions forwards the prior turns it receives,
  together with the persona instruction and the new user message. In the code the
  \<^verbatim>\<open>history\<close> parameter is never used: whatever the history, the one request that each
  function sends holds the new user message and nothing else.
\<close>

theorem chat_history_not_forwarded:
  "map contents (sent (chatWithBotanist ai history newMessage)) = [Turns [(User, newMessage)]]
   \<and> map contents (sent (chatWithGardenMaster ai history newMessage)) = [Turns [(User, newMessage)]]
   \<and> map contents (sent (chatWithSoilExpert ai history newMessage)) = [Turns [(User, newMessage)]]"
  by (simp add: chatWithBotanist_def chatWithGardenMaster_def chatWithSoilExpert_def
        chats_create_def sendMessage_def Let_def split: outcome.splits)

subsection \<open>C3: an empty payload\<close>

text \<open>
  C3 says that an empty payload never yields a successful result. For the weather
  function it does: a missing or empty text is replaced by \<^verbatim>\<open>{}\<close>, which parses to the
  empty object, so the function returns it as data and the component stores it as the
  weather data without an error message. The image analyses throw
  \<^verbatim>\<open>No response from AI\<close> on the same response.
\<close>

theorem weather_empty_payload_accepted:
  "returned (getWeatherDetails (empty_payload None) location) =
     Inr \<lparr> data = JObject [], groundingMetadata_r = None \<rparr>
   \<and> returned (getWeatherDetails (empty_payload (Some [])) location) =
     Inr \<lparr> data = JObject [], groundingMetadata_r = None \<rparr>
   \<and> weatherData (performSearch (empty_payload None) location s) = Some (JObject [])
   \<and> error_w (performSearch (empty_payload None) location s) = None
   \<and> returned (analyzePlantImage (empty_payload None) img) = Inl (Error ''No response from AI'')"
  by (simp add: getWeatherDetails_def performSearch_def empty_payload_def text_or_def
        parse_braces first_groundingMetadata_def analyzePlantImage_def no_text_def Let_def)

subsection \<open>C4: the grounding sources of the weather result\<close>

text \<open>
  C4 as the specification states it: the source list attached to the weather result holds
  exactly the citation entries that have a link. The result of \<^verbatim>\<open>getWeatherDetails\<close>
  carries the grounding metadata as the service sent it, and the component stores it so:
  for a complete weather reply with metadata of a linked and an unlinked chunk, both
  chunks are attached.
\<close>

theorem unfiltered_sources_counterexample:
  "map_sum id groundingMetadata_r (returned (getWeatherDetails grounded (ascii ''Pune''))) =
     Inr (Some \<lparr> groundingChunks = Some [linked_chunk, unlinked_chunk] \<rparr>)
   \<and> groundingMetadata_s (performSearch grounded (ascii ''Pune'') Weather_initial) =
     Some \<lparr> groundingChunks = Some [linked_chunk, unlinked_chunk] \<rparr>
   \<and> link unlinked_chunk = None"
proof -
  from renders_weather_reply obtain wd where
    wd: "JSON_parse (ascii weather_reply) = Some wd" "renders wd" by auto
  have ne: "weather_reply \<noteq> []" by (simp add: weather_reply_def)
  have g: "grounded (weatherRequest (ascii ''Pune'')) =
             Resolved \<lparr> response_text = Some (ascii weather_reply),
                         candidates = Some [\<lparr> groundingMetadata =
                           Some \<lparr> groundingChunks = Some [linked_chunk, unlinked_chunk] \<rparr> \<rparr>] \<rparr>"
    by (simp add: grounded_def)
  have p: "JSON_parse (text_or (response_text
             \<lparr> response_text = Some (ascii weather_reply),
               candidates = Some [\<lparr> groundingMetadata =
                 Some \<lparr> groundingChunks = Some [linked_chunk, unlinked_chunk] \<rparr> \<rparr>] \<rparr>)
             (ascii ''{}'')) = Some wd"
    by (simp add: text_or_reply [OF ne] wd(1))
  have a: "map_sum id groundingMetadata_r (returned (getWeatherDetails grounded (ascii ''Pune''))) =
     Inr (Some \<lparr> groundingChunks = Some [linked_chunk, unlinked_chunk] \<rparr>)"
    using getWeatherDetails_text [where ai = grounded and location = "ascii ''Pune''"
        and r = "\<lparr> response_text = Some (ascii weather_reply),
                   candidates = Some [\<lparr> groundingMetadata =
                     Some \<lparr> groundingChunks = Some [linked_chunk, unlinked_chunk] \<rparr> \<rparr>] \<rparr>",
        OF g]
    by (simp add: first_groundingMetadata_def)
  have b: "groundingMetadata_s (performSearch grounded (ascii ''Pune'') Weather_initial) =
     Some \<lparr> groundingChunks = Some [linked_chunk, unlinked_chunk] \<rparr>"
    using performSearch_stored(2) [where ai = grounded and location = "ascii ''Pune''"
        and s = Weather_initial and wd = wd
        and r = "\<lparr> response_text = Some (ascii weather_reply),
                   candidates = Some [\<lparr> groundingMetadata =
                     Some \<lparr> groundingChunks = Some [linked_chunk, unlinked_chunk] \<rparr> \<rparr>] \<rparr>",
        OF g p renders_truthy [OF wd(2)]]
    by (simp add: first_groundingMetadata_def)
  have c: "link unlinked_chunk = None" by (simp add: link_def unlinked_chunk_def)
  from a b c show ?thesis by simp
qed

text \<open>
  C4, amended: \<^verbatim>\<open>getWeatherDetails\<close> attaches the grounding metadata of the first
  candidate unchanged and \<^verbatim>\<open>performSearch\<close> stores it with the weather data. The
  filtering is done by the view, as the last part of the block that shows the weather
  data: when the stored weather data renders, the view shows one anchor for each chunk
  whose \<^verbatim>\<open>web.uri\<close> is a non-empty string, in the order of the chunks, and none for the
  other chunks. This holds when every chunk with a link has a title or a link that the
  URL constructor accepts (otherwise the computation of the label throws).
\<close>

theorem source_links_filtered_in_view:
  assumes "ai (weatherRequest location) = Resolved r"
    and "JSON_parse (text_or (response_text r) (ascii ''{}'')) = Some wd"
    and "renders wd"
    and "candidates r = Some (cand # cands)"
    and "groundingMetadata cand = Some gm"
    and "groundingChunks gm = Some chunks"
    and "\<forall>c \<in> set chunks. link c \<noteq> None \<longrightarrow>
           chunk_title c \<noteq> None \<or> hostname (the (link c)) \<noteq> None"
  shows "returned (getWeatherDetails ai location) =
           Inr \<lparr> data = wd, groundingMetadata_r = Some gm \<rparr>
       \<and> groundingMetadata_s (performSearch ai location s) = Some gm
       \<and> (\<exists>reads as.
             renderWeatherData hostname (performSearch ai location s) = Inr (Card reads (Some as))
           \<and> map href as = List.map_filter link chunks)"
proof -
  from renderChunks_links [OF assms(7)] obtain as where
    as: "renderChunks hostname chunks = Inr as" "map href as = List.map_filter link chunks"
    by auto
  from assms(4,5) have gm: "first_groundingMetadata r = Some gm"
    by (simp add: first_groundingMetadata_def)
  from assms(3) obtain reads where
    reads: "weatherReads wd = Inr reads" "valid_children (children reads)"
    by (auto simp: renders_def split: sum.splits)
  have tr: "truthy wd" by (rule renders_truthy [OF assms(3)])
  note st = performSearch_stored [where ai = ai and location = location and r = r and wd = wd
      and s = s, OF assms(1,2) tr]
  have v: "renderWeatherData hostname (performSearch ai location s) = Inr (Card reads (Some as))"
    by (simp add: renderWeatherData_def st gm assms(6) tr reads as andThen_def)
  have d: "returned (getWeatherDetails ai location) =
             Inr \<lparr> data = wd, groundingMetadata_r = Some gm \<rparr>"
    using getWeatherDetails_text [where ai = ai and location = location and r = r, OF assms(1)]
      assms(2) gm by simp
  from v d st(2) gm as(2) show ?thesis by auto
qed

text \<open>
  The amended C4 on a complete weather reply with the metadata of two chunks, one with a
  link and one without: the view shows exactly the one link.
\<close>

theorem source_links_filtered_in_view_witness:
  "groundingMetadata_s (performSearch grounded (ascii ''Pune'') Weather_initial) =
     Some \<lparr> groundingChunks = Some [linked_chunk, unlinked_chunk] \<rparr>
   \<and> (\<exists>reads as.
         renderWeatherData (\<lambda>u. None) (performSearch grounded (ascii ''Pune'') Weather_initial) =
           Inr (Card reads (Some as))
       \<and> map href as = [ascii ''https://weather.example/pune''])"
proof -
  from renders_weather_reply obtain wd where
    wd: "JSON_parse (ascii weather_reply) = Some wd" "renders wd" by auto
  have ne: "weather_reply \<noteq> []" by (simp add: weather_reply_def)
  have l: "List.map_filter link [linked_chunk, unlinked_chunk] =
             [ascii ''https://weather.example/pune'']"
    by (simp add: List.map_filter_simps link_def linked_chunk_def unlinked_chunk_def ascii_def)
  have h: "\<forall>c \<in> set [linked_chunk, unlinked_chunk]. link c \<noteq> None \<longrightarrow>
             chunk_title c \<noteq> None \<or> (\<lambda>u. None :: jsstring option) (the (link c)) \<noteq> None"
    by (simp add: link_def chunk_title_def linked_chunk_def unlinked_chunk_def ascii_def)
  have "returned (getWeatherDetails grounded (ascii ''Pune'')) =
           Inr \<lparr> data = wd,
                  groundingMetadata_r =
                    Some \<lparr> groundingChunks = Some [linked_chunk, unlinked_chunk] \<rparr> \<rparr>
       \<and> groundingMetadata_s (performSearch grounded (ascii ''Pune'') Weather_initial) =
           Some \<lparr> groundingChunks = Some [linked_chunk, unlinked_chunk] \<rparr>
       \<and> (\<exists>reads as.
             renderWeatherData (\<lambda>u. None)
               (performSearch grounded (ascii ''Pune'') Weather_initial) =
               Inr (Card reads (Some as))
           \<and> map href as = List.map_filter link [linked_chunk, unlinked_chunk])"
    by (rule source_links_filtered_in_view
          [where cands = "[]"
             and cand = "\<lparr> groundingMetadata =
                            Some \<lparr> groundingChunks = Some [linked_chunk, unlinked_chunk] \<rparr> \<rparr>"
             and r = "\<lparr> response_text = Some (ascii weather_reply),
                         candidates = Some [\<lparr> groundingMetadata =
                           Some \<lparr> groundingChunks = Some [linked_chunk, unlinked_chunk] \<rparr> \<rparr>] \<rparr>",
           OF _ _ wd(2) _ _ _ h])
       (simp_all add: grounded_def text_or_reply [OF ne] wd(1))
  then show ?thesis unfolding l by blast
qed

text \<open>
  The proviso on the weather data is needed. The source links stand inside the block of
  the weather data: when the stored data is the empty object, the view throws at the read
  of the temperature and shows no link, and when the reply is \<^verbatim>\<open>null\<close> nothing is stored
  and there is no card.
\<close>

lemma links_need_renderable_data:
  "renderWeatherData hostname (performSearch (empty_payload None) location s) = Inl TypeError"
  by (simp add: renderWeatherData_def performSearch_def getWeatherDetails_def empty_payload_def
        text_or_def parse_braces first_groundingMetadata_def Let_def weatherReads_def andThen_def
        renderCurrentTemp_def member_def field_def)

lemma no_links_without_data:
  "renderWeatherData hostname (performSearch (reply ''null'') location s) = Inr NoCard"
  by (simp add: renderWeatherData_def performSearch_def getWeatherDetails_def reply_def
        text_or_reply parse_null first_groundingMetadata_def Let_def)

subsection \<open>C5: recovery at the call site\<close>




text \<open>
  The proviso on the callback is needed: the result is set before the callback is called,
  so a callback that throws leaves the result and the error message both set.
\<close>

lemma callback_throw_sets_result_and_error:
  "result (performAnalysis (reply stub_reply) (\<lambda>item. Some (Error ''QuotaExceededError''))
     uuid now img s) = Some stub_value
   \<and> error (performAnalysis (reply stub_reply) (\<lambda>item. Some (Error ''QuotaExceededError''))
     uuid now img s) =
       Some ''Failed to analyze nutrients. Please ensure the plant leaf is clearly visible.''"
proof -
  have ne: "stub_reply \<noteq> []" by (simp add: stub_reply_def)
  have tr: "truthy stub_value" by (simp add: stub_value_def)
  show ?thesis
    by (simp add: performAnalysis_def analysis_failed_def Let_def reply_text [OF ne]
          parse_outcome_def parse_stub_reply tr)
qed

subsection \<open>C6: history items\<close>



subsection \<open>C7: the health score\<close>

text \<open>
  C7: the nutrient analysis returns the value that the reply parses to, unchanged, so the
  health score of the reply is the health score of the result, without rounding or
  clamping: a reply with \<^verbatim>\<open>"healthScore": 83\<close> gives 83, the scores 250 and -7 outside
  the range 0 to 100 are passed through, and the reply of the end-to-end scenario gives
  the health score 45 and the deficiencies \<^verbatim>\<open>["Nitrogen"]\<close>.
\<close>

theorem healthScore_passed_through:
  "(\<forall>ai img r t v.
       ai (nutrientRequest img) = Resolved r \<and> response_text r = Some t \<and> JSON_parse t = Some v
       \<longrightarrow> analyzePlantNutrients ai img =
             \<lparr> sent = [nutrientRequest img], logged = [], returned = Inr v \<rparr>)
   \<and> result_field ''healthScore'' (analyzePlantNutrients (reply score_83_reply) img) =
       Some (JNumber 83 0)
   \<and> result_field ''healthScore'' (analyzePlantNutrients (reply score_250_reply) img) =
       Some (JNumber 250 0)
   \<and> result_field ''healthScore'' (analyzePlantNutrients (reply score_minus_7_reply) img) =
       Some (JNumber (- 7) 0)
   \<and> result_field ''healthScore'' (analyzePlantNutrients (reply stub_reply) img) =
       Some (JNumber 45 0)
   \<and> result_field ''deficiencies'' (analyzePlantNutrients (reply stub_reply) img) =
       Some (JArray [JString (ascii ''Nitrogen'')])"
proof (intro conjI allI impI)
  fix ai img r t v
  assume a: "ai (nutrientRequest img) = Resolved r \<and> response_text r = Some t \<and> JSON_parse t = Some v"
  then have "t \<noteq> []" using JSON_parse_empty by auto
  with a show "analyzePlantNutrients ai img =
                 \<lparr> sent = [nutrientRequest img], logged = [], returned = Inr v \<rparr>"
    by (simp add: analyzePlantNutrients_def no_text_Some)
next
  show "result_field ''healthScore'' (analyzePlantNutrients (reply score_83_reply) img) =
          Some (JNumber 83 0)"
    by (rule result_field_reply [OF field_score_83])
  show "result_field ''healthScore'' (analyzePlantNutrients (reply score_250_reply) img) =
          Some (JNumber 250 0)"
    by (rule result_field_reply [OF field_score_250])
  show "result_field ''healthScore'' (analyzePlantNutrients (reply score_minus_7_reply) img) =
          Some (JNumber (- 7) 0)"
    by (rule result_field_reply [OF field_score_minus_7])
  show "result_field ''healthScore'' (analyzePlantNutrients (reply stub_reply) img) =
          Some (JNumber 45 0)"
    by (rule result_field_reply) (simp add: parse_stub_reply field_stub_healthScore)
  show "result_field ''deficiencies'' (analyzePlantNutrients (reply stub_reply) img) =
          Some (JArray [JString (ascii ''Nitrogen'')])"
    by (rule result_field_reply) (simp add: parse_stub_reply field_stub_deficiencies)
qed

text \<open>C7 on the reply of the end-to-end scenario: the whole parsed object is returned.\<close>

theorem healthScore_passed_through_witness:
  "analyzePlantNutrients (reply stub_reply) (ascii ''aGk='') =
     \<lparr> sent = [nutrientRequest (ascii ''aGk='')], logged = [], returned = Inr stub_value \<rparr>"
proof -
  note general = conjunct1 [OF healthScore_passed_through [of "ascii ''aGk=''"]]
  show ?thesis
    by (rule general [rule_format,
          where r = "\<lparr> response_text = Some (ascii stub_reply), candidates = None \<rparr>"
            and t = "ascii stub_reply"])
       (simp add: reply_def parse_stub_reply)
qed

subsection \<open>C8: sentinel values\<close>

text \<open>
  C8: the parser keeps sentinel values as they are. Each image analysis returns the value
  that the reply parses to; the deficiencies \<^verbatim>\<open>["None"]\<close> of a nutrient reply arrive as
  the list with the single string \<^verbatim>\<open>None\<close>, not as the empty list, and the string
  \<^verbatim>\<open>N/A\<close> of a soil reply arrives as that string.
\<close>

theorem sentinel_preserved:
  "(\<forall>ai img r t v.
       response_text r = Some t \<and> JSON_parse t = Some v \<longrightarrow>
         (ai (diseaseRequest img) = Resolved r \<longrightarrow> returned (analyzePlantImage ai img) = Inr v)
       \<and> (ai (soilRequest img) = Resolved r \<longrightarrow> returned (analyzeSoilReport ai img) = Inr v)
       \<and> (ai (seedRequest img) = Resolved r \<longrightarrow> returned (analyzeSeedImage ai img) = Inr v)
       \<and> (ai (nutrientRequest img) = Resolved r \<longrightarrow> returned (analyzePlantNutrients ai img) = Inr v))
   \<and> result_field ''deficiencies'' (analyzePlantNutrients (reply none_sentinel_reply) img) =
       Some (JArray [JString (ascii ''None'')])
   \<and> result_field ''deficiencies'' (analyzePlantNutrients (reply none_sentinel_reply) img) \<noteq>
       Some (JArray [])
   \<and> map_sum id (field ''phValue'') (returned (analyzeSoilReport (reply na_sentinel_reply) img)) =
       Inr (Some (JString (ascii ''N/A'')))"
proof (intro conjI allI impI)
  fix ai :: gateway and img and r :: response and t v
  assume a: "response_text r = Some t \<and> JSON_parse t = Some v"
  then have ne: "t \<noteq> []" using JSON_parse_empty by auto
  from a have p: "parse_outcome t = Inr v" by (simp add: parse_outcome_def)
  { assume "ai (diseaseRequest img) = Resolved r"
    with a ne p show "returned (analyzePlantImage ai img) = Inr v"
      by (simp add: analyzePlantImage_text) }
  { assume "ai (soilRequest img) = Resolved r"
    with a ne p show "returned (analyzeSoilReport ai img) = Inr v"
      by (simp add: analyzeSoilReport_text) }
  { assume "ai (seedRequest img) = Resolved r"
    with a ne p show "returned (analyzeSeedImage ai img) = Inr v"
      by (simp add: analyzeSeedImage_text) }
  { assume "ai (nutrientRequest img) = Resolved r"
    with a ne p show "returned (analyzePlantNutrients ai img) = Inr v"
      by (simp add: analyzePlantNutrients_text) }
next
  show d: "result_field ''deficiencies'' (analyzePlantNutrients (reply none_sentinel_reply) img) =
          Some (JArray [JString (ascii ''None'')])"
    by (rule result_field_reply [OF field_none_sentinel])
  show "result_field ''deficiencies'' (analyzePlantNutrients (reply none_sentinel_reply) img) \<noteq>
          Some (JArray [])"
    unfolding d by (simp add: ascii_def)
  from field_na_sentinel obtain v where
    v: "JSON_parse (ascii na_sentinel_reply) = Some v" "field ''phValue'' v = Some (JString (ascii ''N/A''))"
    by auto
  have "ascii na_sentinel_reply \<noteq> []" by (simp add: na_sentinel_reply_def ascii_def)
  then have "returned (analyzeSoilReport (reply na_sentinel_reply) img) = parse_outcome (ascii na_sentinel_reply)"
    by (intro analyzeSoilReport_text
          [where r = "\<lparr> response_text = Some (ascii na_sentinel_reply), candidates = None \<rparr>"])
       (simp_all add: reply_def)
  with v show "map_sum id (field ''phValue'') (returned (analyzeSoilReport (reply na_sentinel_reply) img)) =
       Inr (Some (JString (ascii ''N/A'')))"
    by (simp add: parse_outcome_def)
qed

text \<open>C8 on the nutrient reply with the deficiencies \<^verbatim>\<open>["None"]\<close>.\<close>

theorem sentinel_preserved_witness:
  "returned (analyzePlantNutrients (reply none_sentinel_reply) (ascii ''aGk='')) =
     Inr (JObject
       [(ascii ''healthScore'', JNumber 96 0),
        (ascii ''deficiencies'', JArray [JString (ascii ''None'')]),
        (ascii ''symptoms'', JArray []),
        (ascii ''recommendations'', JArray [])])"
proof -
  have p: "JSON_parse (ascii none_sentinel_reply) =
     Some (JObject
       [(ascii ''healthScore'', JNumber 96 0),
        (ascii ''deficiencies'', JArray [JString (ascii ''None'')]),
        (ascii ''symptoms'', JArray []),
        (ascii ''recommendations'', JArray [])])"
    by code_simp
  note general = conjunct1 [OF sentinel_preserved [of "ascii ''aGk=''"]]
  note nutrient = general [rule_format,
      where r = "\<lparr> response_text = Some (ascii none_sentinel_reply), candidates = None \<rparr>"
        and ai = "reply none_sentinel_reply" and img = "ascii ''aGk=''"
        and t = "ascii none_sentinel_reply",
      THEN conjunct2, THEN conjunct2, THEN conjunct2, rule_format]
  show ?thesis
    by (rule nutrient) (simp_all add: reply_def p)
qed

subsection \<open>C9: the message of a parse failure\<close>

text \<open>
  C9: when the reply of the nutrient analysis is not valid JSON, the message shown to the
  user is fixed and does not depend on the reply. For any two such replies the thrown
  error is the same, what the component shows is the same, with the same fixed error
  message, and the raw text is written to the console.
\<close>

theorem parse_failure_message_fixed:
  assumes "ai1 (nutrientRequest img) = Resolved r1" and "response_text r1 = Some t1"
    and "t1 \<noteq> []" and "JSON_parse t1 = None"
    and "ai2 (nutrientRequest img) = Resolved r2" and "response_text r2 = Some t2"
    and "t2 \<noteq> []" and "JSON_parse t2 = None"
  shows "returned (analyzePlantNutrients ai1 img) = Inl (Error ''Invalid response format from AI'')
       \<and> returned (analyzePlantNutrients ai2 img) = Inl (Error ''Invalid response format from AI'')
       \<and> error (performAnalysis ai1 onAddToHistory uuid now img s) =
           Some ''Failed to analyze nutrients. Please ensure the plant leaf is clearly visible.''
       \<and> user_visible (performAnalysis ai1 onAddToHistory uuid now img s) =
           user_visible (performAnalysis ai2 onAddToHistory uuid now img s)
       \<and> console_error ''Failed to parse nutrient report:'' (ArgText t1)
           \<in> set (console (performAnalysis ai1 onAddToHistory uuid now img s))"
proof -
  have r1: "returned (analyzePlantNutrients ai1 img) = Inl (Error ''Invalid response format from AI'')"
    using analyzePlantNutrients_text [where ai = ai1 and img = img, OF assms(1-3)] assms(4) by (simp add: parse_outcome_def)
  have r2: "returned (analyzePlantNutrients ai2 img) = Inl (Error ''Invalid response format from AI'')"
    using analyzePlantNutrients_text [where ai = ai2 and img = img, OF assms(5-7)] assms(8) by (simp add: parse_outcome_def)
  have l1: "logged (analyzePlantNutrients ai1 img) =
              [console_error ''Failed to parse nutrient report:'' (ArgText t1)]"
    by (rule analyzePlantNutrients_logged [where ai = ai1 and img = img, OF assms(1-4)])
  from r1 r2 l1 show ?thesis
    by (simp add: performAnalysis_def analysis_failed_def user_visible_def Let_def)
qed

text \<open>C9 on a reply that is cut off and a reply that is prose.\<close>

theorem parse_failure_message_fixed_witness:
  "user_visible (performAnalysis (reply truncated_reply) (\<lambda>item. None) (ascii ''id-1'') 0
      (ascii ''aGk='') NutrientAnalyzer_initial) =
   user_visible (performAnalysis (reply garbled_reply) (\<lambda>item. None) (ascii ''id-1'') 0
      (ascii ''aGk='') NutrientAnalyzer_initial)
   \<and> error (performAnalysis (reply truncated_reply) (\<lambda>item. None) (ascii ''id-1'') 0
      (ascii ''aGk='') NutrientAnalyzer_initial) =
       Some ''Failed to analyze nutrients. Please ensure the plant leaf is clearly visible.''
   \<and> console_error ''Failed to parse nutrient report:'' (ArgText (ascii truncated_reply))
       \<in> set (console (performAnalysis (reply truncated_reply) (\<lambda>item. None) (ascii ''id-1'') 0
            (ascii ''aGk='') NutrientAnalyzer_initial))"
proof -
  have t1: "ascii truncated_reply \<noteq> []" by (simp add: truncated_reply_def ascii_def)
  have t2: "ascii garbled_reply \<noteq> []" by (simp add: garbled_reply_def ascii_def)
  show ?thesis
    using parse_failure_message_fixed
      [where ?ai1.0 = "reply truncated_reply" and ?ai2.0 = "reply garbled_reply"
         and ?r1.0 = "\<lparr> response_text = Some (ascii truncated_reply), candidates = None \<rparr>"
         and ?r2.0 = "\<lparr> response_text = Some (ascii garbled_reply), candidates = None \<rparr>"
         and img = "ascii ''aGk=''" and onAddToHistory = "\<lambda>item. None"
         and uuid = "ascii ''id-1''" and now = 0 and s = NutrientAnalyzer_initial,
       OF _ _ t1 parse_truncated_reply _ _ t2 parse_garbled_reply]
    by (simp add: reply_def)
qed

subsection \<open>C10: the MIME type of the attachment\<close>

text \<open>
  C10: each of the four image analyses sends one request whose only attachment is
  labelled \<^verbatim>\<open>image/jpeg\<close>, whatever the image. The upload handler of the nutrient
  analyzer drops the type of the selected file, so that the payload of a PNG file is sent
  with the label \<^verbatim>\<open>image/jpeg\<close> as well.
\<close>

theorem attachment_always_jpeg:
  "map attachment_types (sent (analyzePlantImage ai img)) = [[''image/jpeg'']]
   \<and> map attachment_types (sent (analyzeSoilReport ai img)) = [[''image/jpeg'']]
   \<and> map attachment_types (sent (analyzeSeedImage ai img)) = [[''image/jpeg'']]
   \<and> map attachment_types (sent (analyzePlantNutrients ai img)) = [[''image/jpeg'']]
   \<and> map attachment_types (requests (handleFileUpload ai onAddToHistory uuid now (Some f) s)) =
       map attachment_types (requests s) @ [[''image/jpeg'']]
   \<and> map contents (requests (handleFileUpload ai onAddToHistory uuid now (Some png_file)
         NutrientAnalyzer_initial)) =
       [Parts [InlineData ''image/jpeg'' (ascii ''iVBORw0KGgo=''), TextPart NutrientPrompt]]"
proof (intro conjI)
  show "map attachment_types (sent (analyzePlantImage ai img)) = [[''image/jpeg'']]"
    by (simp add: sent_analyzePlantImage diseaseRequest_def attachment_types_def
          List.map_filter_simps)
  show "map attachment_types (sent (analyzeSoilReport ai img)) = [[''image/jpeg'']]"
    by (simp add: sent_analyzeSoilReport soilRequest_def attachment_types_def
          List.map_filter_simps)
  show "map attachment_types (sent (analyzeSeedImage ai img)) = [[''image/jpeg'']]"
    by (simp add: sent_analyzeSeedImage seedRequest_def attachment_types_def
          List.map_filter_simps)
  show "map attachment_types (sent (analyzePlantNutrients ai img)) = [[''image/jpeg'']]"
    by (simp add: sent_analyzePlantNutrients nutrientRequest_def attachment_types_def
          List.map_filter_simps)
  obtain p q ps where "split_on 0x2C (readAsDataURL f) = p # q # ps"
    unfolding readAsDataURL_comma using split_on_second by blast
  then show "map attachment_types (requests (handleFileUpload ai onAddToHistory uuid now (Some f) s)) =
       map attachment_types (requests s) @ [[''image/jpeg'']]"
    by (simp add: handleFileUpload_def requests_performAnalysis nutrientRequest_def
          attachment_types_def List.map_filter_simps)
  show "map contents (requests (handleFileUpload ai onAddToHistory uuid now (Some png_file)
         NutrientAnalyzer_initial)) =
       [Parts [InlineData ''image/jpeg'' (ascii ''iVBORw0KGgo=''), TextPart NutrientPrompt]]"
    by (simp add: handleFileUpload_def split_png requests_performAnalysis nutrientRequest_def
          NutrientAnalyzer_initial_def)
qed

end
